theory Spec2Isabelle
  imports Main "HOL-Library.Word" "HOL-Library.Log_Nat" "HOL-Library.Sublist"
begin

section \<open>JavaScript values used by server.js\<close>

subsection \<open>Strings\<close>

text \<open>
  A JavaScript string is a sequence of UTF-16 code units; \<open>length\<close>, the regular
  expression \<open>/[^0-9,]/g\<close> (no \<open>u\<close> flag), \<open>replace\<close>, \<open>split\<close> and \<open>trim\<close> all work on
  code units. \<open>js\<close> writes an ASCII literal as such a string.
\<close>

type_synonym jschar = "16 word"
type_synonym jsstring = "jschar list"

definition js :: "string \<Rightarrow> jsstring" where
  "js s = map of_char s"

definition comma :: jschar where "comma = 44"
definition dot :: jschar where "dot = 46"
definition qmark :: jschar where "qmark = 63"

definition is_digit :: "jschar \<Rightarrow> bool" where
  "is_digit c = (48 \<le> c \<and> c \<le> 57)"

text \<open>The characters \<open>String.prototype.trim\<close> removes: WhiteSpace and LineTerminator.\<close>

definition is_space :: "jschar \<Rightarrow> bool" where
  "is_space c = (c = 0x9 \<or> c = 0xA \<or> c = 0xB \<or> c = 0xC \<or> c = 0xD \<or> c = 0x20 \<or> c = 0xA0
     \<or> c = 0x1680 \<or> (0x2000 \<le> c \<and> c \<le> 0x200A) \<or> c = 0x2028 \<or> c = 0x2029
     \<or> c = 0x202F \<or> c = 0x205F \<or> c = 0x3000 \<or> c = 0xFEFF)"

definition trim :: "jsstring \<Rightarrow> jsstring" where
  "trim s = rev (dropWhile is_space (rev (dropWhile is_space s)))"

text \<open>\<open>s.replace(a, b)\<close> with a one-character string pattern replaces the first occurrence only.\<close>

fun js_replace :: "jschar \<Rightarrow> jschar \<Rightarrow> jsstring \<Rightarrow> jsstring" where
  "js_replace a b [] = []"
| "js_replace a b (c # cs) = (if c = a then b # cs else c # js_replace a b cs)"

text \<open>\<open>s.split(sep)\<close> with a one-character separator; the result always has an element.\<close>

fun js_split :: "jschar \<Rightarrow> jsstring \<Rightarrow> jsstring list" where
  "js_split sep [] = [[]]"
| "js_split sep (c # cs) =
     (if c = sep then [] # js_split sep cs
      else (case js_split sep cs of [] \<Rightarrow> [[c]] | x # xs \<Rightarrow> (c # x) # xs))"

text \<open>\<open>xs[0]\<close>: \<open>undefined\<close> (here \<open>None\<close>) on an empty array.\<close>

definition first_elem :: "'a list \<Rightarrow> 'a option" where
  "first_elem xs = (case xs of [] \<Rightarrow> None | x # _ \<Rightarrow> Some x)"

subsection \<open>Numbers\<close>

text \<open>
  A JavaScript number is an IEEE 754 binary64 value: \<open>NaN\<close>, the two infinities, or a
  finite value, kept here as the rational it denotes. The sign of zero is not tracked
  (\<open>-0\<close> and \<open>0\<close> are equal under \<open>===\<close>, \<open><\<close> and \<open>>=\<close>, the only tests server.js makes).
  Every arithmetic operation computes the exact result and rounds it with \<open>fl\<close>:
  to the nearest binary64 value, ties to the even significand, with gradual underflow
  below \<open>2^-1022\<close>; a rounded value of \<open>2^1024\<close> or more is an infinity.
\<close>

datatype jsnum = NaN | PInf | NInf | Fin rat

text \<open>\<open>ilog2 a\<close> is \<open>\<lfloor>log\<^sub>2 a\<rfloor>\<close> for a positive rational \<open>a\<close>.\<close>

definition ilog2 :: "rat \<Rightarrow> int" where
  "ilog2 a = (let (n, d) = quotient_of a; k = bitlen n - bitlen d
              in if 2 powi k \<le> a then k else k - 1)"

definition round_half_even :: "rat \<Rightarrow> int" where
  "round_half_even x = (let f = \<lfloor>x\<rfloor>; d = x - of_int f in
     if d < 1 / 2 then f else if 1 / 2 < d then f + 1 else if even f then f else f + 1)"

definition fl_pos :: "rat \<Rightarrow> jsnum" where
  "fl_pos a = (let e = max (ilog2 a) (- 1022); q = 2 powi (e - 52);
                   v = of_int (round_half_even (a / q)) * q
               in if 2 ^ 1024 \<le> v then PInf else Fin v)"

fun js_neg :: "jsnum \<Rightarrow> jsnum" where
  "js_neg NaN = NaN"
| "js_neg PInf = NInf"
| "js_neg NInf = PInf"
| "js_neg (Fin a) = Fin (- a)"

definition fl :: "rat \<Rightarrow> jsnum" where
  "fl r = (if r = 0 then Fin 0 else if 0 < r then fl_pos r else js_neg (fl_pos (- r)))"

fun js_sub :: "jsnum \<Rightarrow> jsnum \<Rightarrow> jsnum" where
  "js_sub NaN y = NaN"
| "js_sub x NaN = NaN"
| "js_sub PInf PInf = NaN"
| "js_sub PInf y = PInf"
| "js_sub NInf NInf = NaN"
| "js_sub NInf y = NInf"
| "js_sub (Fin a) PInf = NInf"
| "js_sub (Fin a) NInf = PInf"
| "js_sub (Fin a) (Fin b) = fl (a - b)"

text \<open>
  Division. With the sign of zero untracked, a zero divisor is taken as \<open>+0\<close>; the one
  division of server.js is guarded by \<open>orgPrice > 0\<close>.
\<close>

fun js_div :: "jsnum \<Rightarrow> jsnum \<Rightarrow> jsnum" where
  "js_div NaN y = NaN"
| "js_div x NaN = NaN"
| "js_div PInf (Fin b) = (if b < 0 then NInf else PInf)"
| "js_div NInf (Fin b) = (if b < 0 then PInf else NInf)"
| "js_div PInf y = NaN"
| "js_div NInf y = NaN"
| "js_div (Fin a) PInf = Fin 0"
| "js_div (Fin a) NInf = Fin 0"
| "js_div (Fin a) (Fin b) =
     (if b = 0 then (if a = 0 then NaN else if 0 < a then PInf else NInf) else fl (a / b))"

fun js_mul :: "jsnum \<Rightarrow> jsnum \<Rightarrow> jsnum" where
  "js_mul NaN y = NaN"
| "js_mul x NaN = NaN"
| "js_mul PInf PInf = PInf"
| "js_mul PInf NInf = NInf"
| "js_mul NInf PInf = NInf"
| "js_mul NInf NInf = PInf"
| "js_mul PInf (Fin b) = (if b = 0 then NaN else if 0 < b then PInf else NInf)"
| "js_mul NInf (Fin b) = (if b = 0 then NaN else if 0 < b then NInf else PInf)"
| "js_mul (Fin a) PInf = (if a = 0 then NaN else if 0 < a then PInf else NInf)"
| "js_mul (Fin a) NInf = (if a = 0 then NaN else if 0 < a then NInf else PInf)"
| "js_mul (Fin a) (Fin b) = fl (a * b)"

text \<open>The relational operators; every comparison with \<open>NaN\<close> is false.\<close>

fun js_lt :: "jsnum \<Rightarrow> jsnum \<Rightarrow> bool" where
  "js_lt NaN y = False"
| "js_lt x NaN = False"
| "js_lt PInf y = False"
| "js_lt x PInf = True"
| "js_lt x NInf = False"
| "js_lt NInf y = True"
| "js_lt (Fin a) (Fin b) = (a < b)"

definition js_gt :: "jsnum \<Rightarrow> jsnum \<Rightarrow> bool" where
  "js_gt x y = js_lt y x"

definition js_ge :: "jsnum \<Rightarrow> jsnum \<Rightarrow> bool" where
  "js_ge x y = (x \<noteq> NaN \<and> y \<noteq> NaN \<and> \<not> js_lt x y)"

definition js_le :: "jsnum \<Rightarrow> jsnum \<Rightarrow> bool" where
  "js_le x y = js_ge y x"

text \<open>\<open>Math.round\<close>: the nearest integer, a tie going up.\<close>

fun Math_round :: "jsnum \<Rightarrow> jsnum" where
  "Math_round (Fin a) = Fin (of_int \<lfloor>a + 1 / 2\<rfloor>)"
| "Math_round x = x"

text \<open>
  \<open>parseFloat\<close> on a string of digits, dots and commas (all that \<open>parseTRPrice\<close> passes
  to it): the longest prefix that is a decimal literal, \<open>digits\<close>, \<open>digits.\<close>,
  \<open>digits.digits\<close> or \<open>.digits\<close>, its decimal value rounded to the nearest binary64
  number; \<open>NaN\<close> when no prefix is one.
\<close>

definition digits_val :: "jsstring \<Rightarrow> nat" where
  "digits_val ds = foldl (\<lambda>acc c. 10 * acc + (unat c - 48)) 0 ds"

definition parseFloat :: "jsstring \<Rightarrow> jsnum" where
  "parseFloat s =
     (let ds1 = takeWhile is_digit s;
          r = dropWhile is_digit s;
          ds2 = (case r of [] \<Rightarrow> [] | c # t \<Rightarrow> if c = dot then takeWhile is_digit t else [])
      in if ds1 = [] \<and> ds2 = [] then NaN
         else fl (of_nat (digits_val (ds1 @ ds2)) / 10 ^ length ds2))"

section \<open>The pipeline inside \<open>scrape\<close>\<close>

subsection \<open>Raw items and products\<close>

text \<open>
  What \<open>page.evaluate\<close> pushes for each matched element (lines 98-104). Every member is
  a string: \<open>getTxt\<close> and the conditional expressions fall back to \<open>''\<close>.
\<close>

record raw_item =
  title :: jsstring
  priceStr :: jsstring
  orgPriceStr :: jsstring
  link :: jsstring
  img :: jsstring

text \<open>What the \<open>map\<close> callback returns (lines 124-133).\<close>

record product =
  title :: jsstring
  price :: jsnum
  original_price :: jsnum
  discount_rate :: jsnum
  image_url :: jsstring
  product_url :: jsstring
  platform :: jsstring
  external_id :: "jsstring option"

text \<open>Lines 111-114. \<open>!str\<close> holds of a string exactly when it is empty.\<close>

definition keep :: "jschar \<Rightarrow> bool" where
  "keep c = (is_digit c \<or> c = comma)"

definition parseTRPrice :: "jsstring \<Rightarrow> jsnum" where
  "parseTRPrice str =
     (if str = [] then Fin 0
      else parseFloat (js_replace comma dot (filter keep str)))"

text \<open>Lines 119-122: the variable \<open>discount\<close>; line 128 rounds it.\<close>

definition discount :: "jsnum \<Rightarrow> jsnum \<Rightarrow> jsnum" where
  "discount price' orgPrice =
     (if js_gt orgPrice price' \<and> js_gt orgPrice (Fin 0)
      then js_mul (js_div (js_sub orgPrice price') orgPrice) (Fin 100)
      else Fin 0)"

definition discountRate :: "jsnum \<Rightarrow> jsnum \<Rightarrow> jsnum" where
  "discountRate price' orgPrice = Math_round (discount price' orgPrice)"

text \<open>Lines 110-133: the callback of \<open>products.map\<close>.\<close>

definition normalizeItem :: "jsstring \<Rightarrow> raw_item \<Rightarrow> product" where
  "normalizeItem platformKey p =
     (let price' = parseTRPrice (priceStr p);
          parsed = parseTRPrice (orgPriceStr p);
          orgPrice = (if parsed = Fin 0 then price' else parsed)
      in \<lparr> title = trim (raw_item.title p),
           price = price',
           original_price = orgPrice,
           discount_rate = discountRate price' orgPrice,
           image_url = img p,
           product_url = link p,
           platform = platformKey,
           external_id = first_elem (js_split qmark (link p)) \<rparr>)"

text \<open>Line 134: the callback of \<open>filter\<close>.\<close>

definition isValid :: "product \<Rightarrow> bool" where
  "isValid p = (js_ge (discount_rate p) (Fin 40) \<and> js_gt (price p) (Fin 0) \<and> 5 < length (title p))"

definition validProducts :: "jsstring \<Rightarrow> raw_item list \<Rightarrow> product list" where
  "validProducts platformKey products = filter isValid (map (normalizeItem platformKey) products)"

subsection \<open>The storage client\<close>

text \<open>
  What \<open>await supabase...upsert(prod, {onConflict, ignoreDuplicates: true}).select()\<close>
  resolves to (line 141): an object with the members \<open>data\<close> (an array of rows, or
  \<open>null\<close>) and \<open>error\<close> (an error object with a message, or \<open>null\<close>). The client
  reports a failed request in \<open>error\<close>; it does not throw.
\<close>

record response =
  data :: "product list option"
  error :: "jsstring option"

text \<open>
  Lines 139-149, over any storage client \<open>svc\<close> with a state of its own. \<open>!error\<close> holds
  when \<open>error\<close> is \<open>null\<close>; \<open>data\<close> is truthy when it is not \<open>null\<close>: an array is truthy
  even when it is empty, and then \<open>data[0]\<close> is \<open>undefined\<close>.
\<close>

fun saveLoop :: "('st \<Rightarrow> product \<Rightarrow> response \<times> 'st) \<Rightarrow> 'st \<Rightarrow> product list
    \<Rightarrow> product option list \<Rightarrow> product option list \<times> 'st" where
  "saveLoop svc st [] savedItems = (savedItems, st)"
| "saveLoop svc st (item # rest) savedItems =
     (case svc st item of (r, st') \<Rightarrow>
        saveLoop svc st' rest
          (case (error r, response.data r) of
             (None, Some rows) \<Rightarrow> savedItems @ [first_elem rows]
           | _ \<Rightarrow> savedItems))"

text \<open>
  Modelled from the spec: the storage service itself is outside the repository; its
  contract is "an upsert operation parameterized by the composite key
  \<open>(platform, external_id)\<close>, with duplicate-ignoring semantics (insert-if-absent, never
  overwrite)", where a single call may fail (constraint violation, transient I/O).
  The state is the table and the faults that the coming calls will meet. With
  \<open>.select()\<close> the client answers with the rows the statement returned: the inserted
  row, or no row at all when the duplicate was ignored; a failed call answers with
  \<open>data: null\<close> and the error, and leaves the table as it was.
\<close>

record store =
  rows :: "product list"
  faults :: "jsstring option list"

definition key :: "product \<Rightarrow> jsstring \<times> jsstring option" where
  "key p = (platform p, external_id p)"

definition upsert :: "store \<Rightarrow> product \<Rightarrow> response \<times> store" where
  "upsert st item =
     (case faults st of
        Some msg # fs \<Rightarrow> (\<lparr> data = None, error = Some msg \<rparr>, st\<lparr> faults := fs \<rparr>)
      | _ \<Rightarrow>
          if key item \<in> set (map key (rows st))
          then (\<lparr> data = Some [], error = None \<rparr>, st\<lparr> faults := tl (faults st) \<rparr>)
          else (\<lparr> data = Some [item], error = None \<rparr>,
                st\<lparr> rows := rows st @ [item], faults := tl (faults st) \<rparr>))"

subsection \<open>The configuration\<close>

record platform_config =
  url :: jsstring
  selector :: jsstring

text \<open>
  The own properties of \<open>CONFIG\<close> (lines 10-62); \<open>scrape\<close> reads \<open>url\<close> and \<open>selector\<close>
  and never calls the \<open>parser\<close> members.
\<close>

definition CONFIG :: "(jsstring \<times> platform_config) list" where
  "CONFIG =
     [(js ''trendyol'',
        \<lparr> url = js ''https://www.trendyol.com/sr?wc=103328&fl=en-cok-one-cikanlar'',
          selector = js ''.p-card-wrppr'' \<rparr>),
      (js ''temu'',
        \<lparr> url = js ''https://www.temu.com/az/channel/lightning-deals.html'',
          selector = js ''.goods-item'' \<rparr>)]"

text \<open>
  \<open>CONFIG\<close> is an object literal, so \<open>CONFIG[platformKey]\<close> also finds what the object
  inherits from \<open>Object.prototype\<close>. Each inherited member is a function or an object:
  truthy, and without a \<open>url\<close> or \<open>selector\<close> property.
\<close>

definition Object_prototype :: "jsstring list" where
  "Object_prototype = map js
     [''constructor'', ''__defineGetter__'', ''__defineSetter__'', ''hasOwnProperty'',
      ''__lookupGetter__'', ''__lookupSetter__'', ''isPrototypeOf'', ''propertyIsEnumerable'',
      ''toString'', ''valueOf'', ''__proto__'', ''toLocaleString'']"

datatype property = Own platform_config | Inherited | Undefined

definition CONFIG_get :: "jsstring \<Rightarrow> property" where
  "CONFIG_get platformKey =
     (case map_of CONFIG platformKey of
        Some c \<Rightarrow> Own c
      | None \<Rightarrow> if platformKey \<in> set Object_prototype then Inherited else Undefined)"

fun get_url :: "property \<Rightarrow> jsstring option" where
  "get_url (Own c) = Some (url c)"
| "get_url _ = None"

fun get_selector :: "property \<Rightarrow> jsstring option" where
  "get_selector (Own c) = Some (selector c)"
| "get_selector _ = None"

subsection \<open>The browser and \<open>scrape\<close>\<close>

text \<open>
  The outcome of each Playwright call that \<open>scrape\<close> awaits: \<open>Some msg\<close> is an exception
  with that message. \<open>goto\<close> and the extraction depend on the argument they are given,
  which is \<open>undefined\<close> (\<open>None\<close>) when the configuration has no such property.
\<close>

record browser =
  launch :: "jsstring option"
  newContext :: "jsstring option"
  newPage :: "jsstring option"
  goto :: "jsstring option \<Rightarrow> jsstring option"
  evaluate_scroll :: "jsstring option"
  waitForTimeout :: "jsstring option"
  evaluate_items :: "jsstring option \<Rightarrow> jsstring + raw_item list"
  close :: "jsstring option"

text \<open>The external calls a run makes, in order.\<close>

datatype event = Launch | NewContext | NewPage | Goto "jsstring option" | Scroll | Wait
  | Evaluate "jsstring option" | Upsert product | Close

record summary =
  total_found :: nat
  filtered_count :: nat
  saved_count :: nat
  data :: "product list"

text \<open>
  The object \<open>scrape\<close> returns: the summary with \<open>status: 'success'\<close>, or \<open>{error: message}\<close>.
  The promise of \<open>scrape\<close> either resolves to such an object or is rejected; the route
  handler (lines 167-170) awaits it outside any \<open>try\<close>, so a rejection is not handled.
\<close>

datatype result = Success summary | ErrorResult jsstring

datatype outcome = Returned result | Rejected jsstring

text \<open>Lines 76-161: the \<open>try\<close> block with its \<open>catch\<close>, which turns an exception into a result.\<close>

definition try_block :: "('st \<Rightarrow> product \<Rightarrow> response \<times> 'st) \<Rightarrow> browser \<Rightarrow> 'st \<Rightarrow> jsstring
    \<Rightarrow> property \<Rightarrow> result \<times> event list \<times> 'st" where
  "try_block svc b st platformKey config =
     (case goto b (get_url config) of
        Some msg \<Rightarrow> (ErrorResult msg, [Goto (get_url config)], st)
      | None \<Rightarrow>
     (case evaluate_scroll b of
        Some msg \<Rightarrow> (ErrorResult msg, [Goto (get_url config), Scroll], st)
      | None \<Rightarrow>
     (case waitForTimeout b of
        Some msg \<Rightarrow> (ErrorResult msg, [Goto (get_url config), Scroll, Wait], st)
      | None \<Rightarrow>
     (case evaluate_items b (get_selector config) of
        Inl msg \<Rightarrow>
          (ErrorResult msg,
           [Goto (get_url config), Scroll, Wait, Evaluate (get_selector config)], st)
      | Inr products \<Rightarrow>
          (let valid = validProducts platformKey products;
               (savedItems, st') = saveLoop svc st valid []
           in (Success \<lparr> total_found = length products,
                          filtered_count = length valid,
                          saved_count = length savedItems,
                          data = take 50 valid \<rparr>,
               [Goto (get_url config), Scroll, Wait, Evaluate (get_selector config)]
                 @ map Upsert valid,
               st'))))))"

text \<open>
  Lines 64-165. The browser, the context and the page are created before the \<open>try\<close>;
  \<open>finally\<close> closes the browser, and an exception there replaces the result.
\<close>

definition scrape :: "('st \<Rightarrow> product \<Rightarrow> response \<times> 'st) \<Rightarrow> browser \<Rightarrow> 'st \<Rightarrow> jsstring
    \<Rightarrow> outcome \<times> event list \<times> 'st" where
  "scrape svc b st platformKey =
     (case CONFIG_get platformKey of
        Undefined \<Rightarrow> (Returned (ErrorResult (js ''Platform not supported'')), [], st)
      | config \<Rightarrow>
     (case launch b of
        Some msg \<Rightarrow> (Rejected msg, [Launch], st)
      | None \<Rightarrow>
     (case newContext b of
        Some msg \<Rightarrow> (Rejected msg, [Launch, NewContext], st)
      | None \<Rightarrow>
     (case newPage b of
        Some msg \<Rightarrow> (Rejected msg, [Launch, NewContext, NewPage], st)
      | None \<Rightarrow>
     (case try_block svc b st platformKey config of (r, tr, st') \<Rightarrow>
     (case close b of
        Some msg \<Rightarrow> (Rejected msg, [Launch, NewContext, NewPage] @ tr @ [Close], st')
      | None \<Rightarrow> (Returned r, [Launch, NewContext, NewPage] @ tr @ [Close], st')))))))"

subsection \<open>The specification's end-to-end scenario\<close>

text \<open>
  The two raw items of the scenario, and the product the first one is normalized to on
  the platform \<open>trendyol\<close>; the prices are the binary64 values of 59.99 and 129.99
  (with the denominators \<open>2^47\<close> and \<open>2^42\<close>).
\<close>

definition raw_a :: raw_item where
  "raw_a = \<lparr> raw_item.title = js ''Brand ShirtX'', priceStr = js ''59,99 TL'',
             orgPriceStr = js ''129,99 TL'', link = js ''https://x/p/1?a=1'', img = [] \<rparr>"

definition raw_b :: raw_item where
  "raw_b = \<lparr> raw_item.title = js ''Hi'', priceStr = js ''10,00 TL'',
             orgPriceStr = js ''10,00 TL'', link = js ''https://x/p/2'', img = [] \<rparr>"

definition deal_a :: product where
  "deal_a = \<lparr> title = js ''Brand ShirtX'',
              price = Fin (8442841926436127 / 140737488355328),
              original_price = Fin (571702065978409 / 4398046511104),
              discount_rate = Fin 54,
              image_url = [],
              product_url = js ''https://x/p/1?a=1'',
              platform = js ''trendyol'',
              external_id = Some (js ''https://x/p/1'') \<rparr>"

text \<open>
  A browser in which every call succeeds and the page yields the given items; like
  Playwright, \<open>page.goto\<close> rejects an argument that is not a string.
\<close>

definition page_with :: "raw_item list \<Rightarrow> browser" where
  "page_with items =
     \<lparr> launch = None, newContext = None, newPage = None,
       goto = (\<lambda>u. case u of None \<Rightarrow> Some (js ''page.goto: url: expected string, got undefined'')
                              | Some _ \<Rightarrow> None),
       evaluate_scroll = None, waitForTimeout = None,
       evaluate_items = (\<lambda>sel. Inr items),
       close = None \<rparr>"

section \<open>Facts about the number model\<close>

lemma bitlen_pos: "0 < n \<Longrightarrow> 1 \<le> bitlen n"
  using bitlen_eq_zero_iff[of n] bitlen_nonneg[of n] by linarith

lemma bitlen_rat_bounds:
  assumes "0 < n"
  shows "(2::rat) powi (bitlen n - 1) \<le> of_int n" and "of_int n < (2::rat) powi bitlen n"
proof -
  have b: "1 \<le> bitlen n" using assms by (rule bitlen_pos)
  have "(2::int) ^ nat (bitlen n - 1) \<le> n" and "n < 2 ^ nat (bitlen n)"
    using bitlen_bounds[OF assms] by simp_all
  then have "rat_of_int (2 ^ nat (bitlen n - 1)) \<le> of_int n"
    and "rat_of_int n < of_int (2 ^ nat (bitlen n))"
    by (simp_all only: of_int_le_iff of_int_less_iff)
  then show "(2::rat) powi (bitlen n - 1) \<le> of_int n" and "of_int n < (2::rat) powi bitlen n"
    using b by (simp_all add: power_int_nonneg_exp)
qed

text \<open>\<open>ilog2\<close> computes the binary exponent: \<open>2^(ilog2 a) \<le> a < 2^(ilog2 a + 1)\<close>.\<close>

lemma ilog2_bounds:
  assumes "0 < a"
  shows "2 powi ilog2 a \<le> a \<and> a < 2 powi (ilog2 a + 1)"
proof -
  obtain n d where q: "quotient_of a = (n, d)" by (cases "quotient_of a")
  have d: "0 < d" using q quotient_of_denom_pos by blast
  have a: "a = of_int n / of_int d" using q quotient_of_div by blast
  have n: "0 < n" using assms d a by (simp add: zero_less_divide_iff)
  define bn where "bn = bitlen n"
  define bd where "bd = bitlen d"
  have nl: "(2::rat) powi (bn - 1) \<le> of_int n" and nu: "of_int n < (2::rat) powi bn"
    using bitlen_rat_bounds[OF n] by (simp_all add: bn_def)
  have dl: "(2::rat) powi (bd - 1) \<le> of_int d" and du: "of_int d < (2::rat) powi bd"
    using bitlen_rat_bounds[OF d] by (simp_all add: bd_def)
  have "(2::rat) powi (bn - 1) / 2 powi bd \<le> of_int n / of_int d"
    using nl du d n by (intro frac_le) simp_all
  moreover have "(2::rat) powi (bn - bd - 1) = 2 powi (bn - 1) / 2 powi bd"
    using power_int_diff[of "2::rat" "bn - 1" bd] by (simp add: algebra_simps)
  ultimately have lower: "2 powi (bn - bd - 1) \<le> a"
    by (simp add: a)
  have "rat_of_int n / of_int d < 2 powi bn / 2 powi (bd - 1)"
    using nu dl n by (intro frac_less) simp_all
  moreover have "(2::rat) powi (bn - bd + 1) = 2 powi bn / 2 powi (bd - 1)"
    using power_int_diff[of "2::rat" bn "bd - 1"] by (simp add: algebra_simps)
  ultimately have upper: "a < 2 powi (bn - bd + 1)"
    by (simp add: a)
  show ?thesis using lower upper q
    by (auto simp: ilog2_def bn_def bd_def Let_def)
qed

lemma ilog2_eq:
  assumes "2 powi k \<le> a" and "a < 2 powi (k + 1)"
  shows "ilog2 a = k"
proof -
  have "(0::rat) < 2 powi k" by simp
  then have pos: "0 < a" using assms(1) by linarith
  note b = ilog2_bounds[OF pos]
  have 1: "\<not> ilog2 a + 1 \<le> k"
  proof
    assume "ilog2 a + 1 \<le> k"
    then have "(2::rat) powi (ilog2 a + 1) \<le> 2 powi k"
      by (intro power_int_increasing) simp_all
    then show False using assms(1) b by linarith
  qed
  have 2: "\<not> k + 1 \<le> ilog2 a"
  proof
    assume "k + 1 \<le> ilog2 a"
    then have "(2::rat) powi (k + 1) \<le> 2 powi ilog2 a"
      by (intro power_int_increasing) simp_all
    then show False using assms(2) b by linarith
  qed
  show ?thesis using 1 2 by linarith
qed

text \<open>Rounding a positive value whose binary exponent \<open>k\<close> is known.\<close>

lemma fl_pos_exp:
  assumes "2 powi k \<le> a" and "a < 2 powi (k + 1)"
  shows "fl_pos a =
    (let q = 2 powi (max k (- 1022) - 52); v = of_int (round_half_even (a / q)) * q
     in if 2 ^ 1024 \<le> v then PInf else Fin v)"
  by (simp add: fl_pos_def ilog2_eq[OF assms] Let_def)

lemma floor_rat_numeral:
  "\<lfloor>(numeral a / numeral b :: rat)\<rfloor> = numeral a div numeral b"
  by (metis floor_divide_of_int_eq of_int_numeral)

lemmas fl_eval = fl_def round_half_even_def Let_def floor_rat_numeral

lemma round_half_even_nonneg: "0 \<le> x \<Longrightarrow> 0 \<le> round_half_even x"
  by (simp add: round_half_even_def Let_def)

lemma fl_pos_nonneg:
  assumes "0 \<le> a"
  shows "fl_pos a = PInf \<or> (\<exists>c. fl_pos a = Fin c \<and> 0 \<le> c)"
proof -
  define q :: rat where "q = 2 powi (max (ilog2 a) (- 1022) - 52)"
  have q: "0 < q" by (simp add: q_def)
  then have "0 \<le> a / q" using assms by simp
  then have "0 \<le> round_half_even (a / q)" by (rule round_half_even_nonneg)
  then have "0 \<le> rat_of_int (round_half_even (a / q)) * q" using q by simp
  then show ?thesis by (simp add: fl_pos_def Let_def flip: q_def)
qed

lemma fl_nonneg: "0 \<le> r \<Longrightarrow> fl r = PInf \<or> (\<exists>c. fl r = Fin c \<and> 0 \<le> c)"
  using fl_pos_nonneg[of r] by (simp add: fl_def)

lemma js_gt_Fin [simp]: "js_gt (Fin a) (Fin b) = (b < a)"
  by (simp add: js_gt_def)

lemma js_ge_Fin [simp]: "js_ge (Fin a) (Fin b) = (b \<le> a)"
  by (auto simp: js_ge_def)

lemma js_gt_irrefl [simp]: "\<not> js_gt x x"
  by (cases x) (simp_all add: js_gt_def)

lemma not_js_gt_iff:
  "(\<not> (js_gt y x \<and> js_gt y (Fin 0))) = (x = NaN \<or> y = NaN \<or> js_le y x \<or> js_le y (Fin 0))"
  by (cases x; cases y) (auto simp: js_gt_def js_le_def js_ge_def)

lemma floor_half [simp]: "\<lfloor>(1 / 2 :: rat)\<rfloor> = 0"
  by (simp add: floor_eq_iff)

lemma Math_round_0 [simp]: "Math_round (Fin 0) = Fin 0"
  by simp

section \<open>The discount rate\<close>

lemma discount_nonneg:
  "discount x y = NaN \<or> discount x y = PInf \<or> (\<exists>c. discount x y = Fin c \<and> 0 \<le> c)"
proof (cases "js_gt y x \<and> js_gt y (Fin 0)")
  case False
  then have "discount x y = Fin 0" by (auto simp: discount_def)
  then show ?thesis by simp
next
  case True
  then have g: "js_gt y x" "js_gt y (Fin 0)" by simp_all
  have mul: "js_mul z (Fin 100) = NaN \<or> js_mul z (Fin 100) = PInf
      \<or> (\<exists>c. js_mul z (Fin 100) = Fin c \<and> 0 \<le> c)"
    if "z = NaN \<or> z = PInf \<or> (\<exists>c. z = Fin c \<and> 0 \<le> c)" for z
    using that fl_nonneg[of "c * 100" for c] by (cases z) auto
  have dv: "js_div z y = NaN \<or> js_div z y = PInf \<or> (\<exists>c. js_div z y = Fin c \<and> 0 \<le> c)"
    if "z = PInf \<or> (\<exists>c. z = Fin c \<and> 0 \<le> c)" for z
    using that g fl_nonneg[of "c / b" for c b] by (cases z; cases y) (auto simp: js_gt_def)
  have sb: "js_sub y x = PInf \<or> (\<exists>c. js_sub y x = Fin c \<and> 0 \<le> c)"
    using g fl_nonneg[of "b - a" for a b] by (cases x; cases y) (auto simp: js_gt_def)
  have "discount x y = js_mul (js_div (js_sub y x) y) (Fin 100)"
    using g by (simp add: discount_def)
  then show ?thesis using mul[OF dv[OF sb]] by simp
qed

lemma discountRate_100_200: "discountRate (Fin 100) (Fin 200) = Fin 50"
proof -
  have s: "js_sub (Fin 200) (Fin 100) = Fin 100"
    by (simp add: fl_eval fl_pos_exp[where k = 6])
  have d: "js_div (Fin 100) (Fin 200) = Fin (1 / 2)"
    by (simp add: fl_eval fl_pos_exp[where k = "- 1"])
  have m: "js_mul (Fin (1 / 2)) (Fin 100) = Fin 50"
    by (simp add: fl_eval fl_pos_exp[where k = 5])
  have "discount (Fin 100) (Fin 200) = Fin 50"
    unfolding discount_def s d m by simp
  then show ?thesis
    by (simp add: discountRate_def floor_rat_numeral)
qed

text \<open>
  C4, as stated, fails: the source computes \<open>((orgPrice - price) / orgPrice) * 100\<close> in
  binary64. For the prices 17 and 40 the quotient \<open>23 / 40\<close> rounds down, the product is
  \<open>57.49999999999999\<close> and \<open>Math.round\<close> gives 57, while
  \<open>round(100 * (40 - 17) / 40)\<close>, the half-up rounding of 57.5, is 58.
\<close>

theorem discountRate_17_40_counterexample:
  "discountRate (Fin 17) (Fin 40) = Fin 57 \<and> \<lfloor>(100 * (40 - 17) / 40 + 1 / 2 :: rat)\<rfloor> = 58"
proof -
  have s: "js_sub (Fin 40) (Fin 17) = Fin 23"
    by (simp add: fl_eval fl_pos_exp[where k = 4])
  have d: "js_div (Fin 23) (Fin 40) = Fin (5179139571476070 / 2 ^ 53)"
    by (simp add: fl_eval fl_pos_exp[where k = "- 1"])
  have m: "js_mul (Fin (5179139571476070 / 2 ^ 53)) (Fin 100) = Fin (8092405580431359 / 2 ^ 47)"
    by (simp add: fl_eval fl_pos_exp[where k = 5])
  have "discount (Fin 17) (Fin 40) = Fin (8092405580431359 / 2 ^ 47)"
    unfolding discount_def s d m by simp
  then show ?thesis
    by (simp add: discountRate_def floor_rat_numeral)
qed

text \<open>
  C4, amended: for every pair of numbers the discount rate is 0 when
  \<open>originalPrice <= price\<close> or \<open>originalPrice <= 0\<close> (and when either is \<open>NaN\<close>), and
  otherwise it is \<open>Math.round\<close>, half-up, of the binary64 value of
  \<open>((originalPrice - price) / originalPrice) * 100\<close>, each operation rounded to the nearest
  binary64 value; the result is never negative. \<open>discountRate(100, 200) = 50\<close>,
  \<open>discountRate(200, 100) = 0\<close>, \<open>discountRate(100, 100) = 0\<close>, \<open>discountRate(0, 0) = 0\<close>.
\<close>

theorem discountRate_amended:
  "discountRate price' orgPrice =
     (if price' = NaN \<or> orgPrice = NaN \<or> js_le orgPrice price' \<or> js_le orgPrice (Fin 0)
      then Fin 0
      else Math_round (js_mul (js_div (js_sub orgPrice price') orgPrice) (Fin 100)))
   \<and> \<not> js_lt (discountRate price' orgPrice) (Fin 0)
   \<and> discountRate (Fin 100) (Fin 200) = Fin 50
   \<and> discountRate (Fin 200) (Fin 100) = Fin 0
   \<and> discountRate (Fin 100) (Fin 100) = Fin 0
   \<and> discountRate (Fin 0) (Fin 0) = Fin 0"
proof -
  have eq: "discountRate price' orgPrice =
     (if price' = NaN \<or> orgPrice = NaN \<or> js_le orgPrice price' \<or> js_le orgPrice (Fin 0)
      then Fin 0
      else Math_round (js_mul (js_div (js_sub orgPrice price') orgPrice) (Fin 100)))"
    unfolding not_js_gt_iff[of orgPrice price', symmetric]
    by (simp add: discountRate_def discount_def)
  have nn: "\<not> js_lt (discountRate price' orgPrice) (Fin 0)"
    using discount_nonneg[of price' orgPrice]
    by (cases "discount price' orgPrice") (auto simp: discountRate_def)
  have ex: "discountRate (Fin 200) (Fin 100) = Fin 0" "discountRate (Fin 100) (Fin 100) = Fin 0"
    "discountRate (Fin 0) (Fin 0) = Fin 0"
    by (simp_all add: discountRate_def discount_def)
  show ?thesis using eq nn ex discountRate_100_200 by blast
qed

theorem discountRate_amended_witness:
  "js_le (Fin 100) (Fin 200) \<and> discountRate (Fin 200) (Fin 100) = Fin 0
   \<and> \<not> js_le (Fin 200) (Fin 100) \<and> \<not> js_le (Fin 200) (Fin 0)
   \<and> discountRate (Fin 100) (Fin 200)
       = Math_round (js_mul (js_div (js_sub (Fin 200) (Fin 100)) (Fin 200)) (Fin 100))
   \<and> \<not> js_lt (discountRate (Fin 100) (Fin 200)) (Fin 0)"
  using discountRate_amended[of "Fin 200" "Fin 100"] discountRate_amended[of "Fin 100" "Fin 200"]
  by (simp add: js_le_def)

section \<open>The price parser\<close>

lemma is_digit_not_comma: "is_digit c \<Longrightarrow> c \<noteq> comma"
  by (auto simp: is_digit_def comma_def)

lemma not_digit_comma [simp]: "\<not> is_digit comma"
  by (simp add: is_digit_def comma_def)

lemma not_digit_dot [simp]: "\<not> is_digit dot"
  by (simp add: is_digit_def dot_def)

lemma comma_not_dot [simp]: "comma \<noteq> dot" "dot \<noteq> comma"
  by (simp_all add: comma_def dot_def)

lemma js_replace_absent: "a \<notin> set s \<Longrightarrow> js_replace a b s = s"
  by (induction s) auto

lemma js_replace_first: "a \<notin> set xs \<Longrightarrow> js_replace a b (xs @ a # ys) = xs @ b # ys"
  by (induction xs) auto

lemma digits_no_comma: "list_all is_digit ds \<Longrightarrow> comma \<notin> set ds"
  by (auto simp: list_all_iff dest: is_digit_not_comma)

lemma parseFloat_digits:
  assumes "list_all is_digit ds" and "ds \<noteq> []"
  shows "parseFloat ds = fl (of_nat (digits_val ds))"
proof -
  have tw: "takeWhile is_digit ds = ds" and dw: "dropWhile is_digit ds = []"
    using assms(1) by (simp_all add: list_all_iff)
  show ?thesis using assms(2) by (simp add: parseFloat_def tw dw)
qed

lemma parseFloat_fraction:
  assumes "list_all is_digit ds1" and "list_all is_digit ds2" and "ds1 \<noteq> [] \<or> ds2 \<noteq> []"
    and "tail = [] \<or> (\<exists>r. tail = comma # r)"
  shows "parseFloat (ds1 @ dot # ds2 @ tail) = fl (of_nat (digits_val (ds1 @ ds2)) / 10 ^ length ds2)"
proof -
  have 1: "takeWhile is_digit (ds1 @ dot # ds2 @ tail) = ds1"
    using assms(1) by (simp add: list_all_iff takeWhile_tail)
  have 2: "dropWhile is_digit (ds1 @ dot # ds2 @ tail) = dot # ds2 @ tail"
    using assms(1) by (simp add: list_all_iff dropWhile_append3)
  have 3: "takeWhile is_digit (ds2 @ tail) = ds2"
    using assms(2,4) by (auto simp: list_all_iff takeWhile_tail)
  show ?thesis using assms(3) by (auto simp: parseFloat_def 1 2 3)
qed

lemma parse_129_99: "parseTRPrice (js ''129,99 TL'') = fl (12999 / 100)"
  by (simp add: parseTRPrice_def parseFloat_def js_def keep_def is_digit_def comma_def dot_def
      digits_val_def)

text \<open>
  C2, as stated, fails twice. The regular expression of \<open>parseTRPrice\<close> is \<open>/[^0-9,]/g\<close>:
  it strips the dot as well, so \<open>"1.5"\<close> parses to 15, not to 1.5. And a non-empty input
  in which no digit is left, such as \<open>"abc"\<close>, passes the \<open>!str\<close> guard and reaches
  \<open>parseFloat("")\<close>, which is \<open>NaN\<close>, not 0.
\<close>

theorem parseTRPrice_counterexample:
  "parseTRPrice (js ''abc'') = NaN \<and> parseTRPrice (js ''1.5'') = Fin 15"
proof -
  have "fl 15 = Fin 15"
    by (simp add: fl_eval fl_pos_exp[where k = 3])
  then show ?thesis
    by (simp add: parseTRPrice_def parseFloat_def js_def keep_def is_digit_def comma_def dot_def
      digits_val_def)
qed

text \<open>
  C2, amended: for every input string, the price parser strips every character that is
  not a digit or a comma (a dot is stripped too), so its result depends on the digits and
  commas of a non-empty input only; the first comma is the decimal separator: the digits
  before it are the integer part, the digits after it, up to a second comma, the
  fraction, and digits without any comma are an integer; the value is the nearest
  binary64 number. The empty input yields 0, and \<open>parse("129,99 TL") = 129.99\<close>.
  (What a non-empty input without a usable digit yields is left out.)
\<close>

theorem parseTRPrice_amended:
  "(s \<noteq> [] \<and> s' \<noteq> [] \<and> filter keep s = filter keep s' \<longrightarrow> parseTRPrice s = parseTRPrice s')
   \<and> \<not> keep dot
   \<and> (list_all is_digit ds \<and> ds \<noteq> [] \<and> filter keep s = ds
        \<longrightarrow> parseTRPrice s = fl (of_nat (digits_val ds)))
   \<and> (list_all is_digit ip \<and> list_all is_digit fp \<and> (ip \<noteq> [] \<or> fp \<noteq> [])
        \<and> (tail = [] \<or> (\<exists>r. tail = comma # r)) \<and> filter keep s = ip @ comma # fp @ tail
        \<longrightarrow> parseTRPrice s = fl (of_nat (digits_val (ip @ fp)) / 10 ^ length fp))
   \<and> parseTRPrice [] = Fin 0
   \<and> parseTRPrice (js ''129,99 TL'') = fl (12999 / 100)"
proof -
  have a: "parseTRPrice s = parseTRPrice s'"
    if "s \<noteq> []" "s' \<noteq> []" "filter keep s = filter keep s'"
    using that by (simp add: parseTRPrice_def)
  have b: "\<not> keep dot"
    by (simp add: keep_def)
  have c: "parseTRPrice s = fl (of_nat (digits_val ds))"
    if "list_all is_digit ds" "ds \<noteq> []" "filter keep s = ds"
  proof -
    have "s \<noteq> []" using that by auto
    then show ?thesis
      using that by (simp add: parseTRPrice_def js_replace_absent digits_no_comma parseFloat_digits)
  qed
  have d: "parseTRPrice s = fl (of_nat (digits_val (ip @ fp)) / 10 ^ length fp)"
    if "list_all is_digit ip" "list_all is_digit fp" "ip \<noteq> [] \<or> fp \<noteq> []"
      "tail = [] \<or> (\<exists>r. tail = comma # r)" "filter keep s = ip @ comma # fp @ tail"
  proof -
    have "s \<noteq> []" using that(5) by auto
    then show ?thesis
      using that by (simp add: parseTRPrice_def js_replace_first digits_no_comma parseFloat_fraction)
  qed
  have e: "parseTRPrice [] = Fin 0"
    by (simp add: parseTRPrice_def)
  show ?thesis using a b c d e parse_129_99 by blast
qed

theorem parseTRPrice_amended_witness:
  "js ''129,99 TL'' \<noteq> [] \<and> js ''TL129,99'' \<noteq> []
   \<and> filter keep (js ''129,99 TL'') = filter keep (js ''TL129,99'')
   \<and> parseTRPrice (js ''129,99 TL'') = parseTRPrice (js ''TL129,99'')
   \<and> list_all is_digit (js ''129'') \<and> list_all is_digit (js ''99'')
   \<and> filter keep (js ''129,99 TL'') = js ''129'' @ comma # js ''99'' @ []
   \<and> parseTRPrice (js ''129,99 TL'')
       = fl (of_nat (digits_val (js ''129'' @ js ''99'')) / 10 ^ length (js ''99''))
   \<and> list_all is_digit (js ''1299'') \<and> filter keep (js ''1.299 TL'') = js ''1299''
   \<and> parseTRPrice (js ''1.299 TL'') = fl (of_nat (digits_val (js ''1299'')))"
  using parseTRPrice_amended[where s = "js ''129,99 TL''" and s' = "js ''TL129,99''"
      and ip = "js ''129''" and fp = "js ''99''" and tail = "[]" and ds = "[]"]
    parseTRPrice_amended[where s = "js ''1.299 TL''" and s' = "[]"
      and ip = "[]" and fp = "[]" and tail = "[]" and ds = "js ''1299''"]
  by (simp add: js_def keep_def is_digit_def comma_def digits_val_def)

section \<open>Normalization and the validity filter\<close>

lemma first_elem_js_split:
  "first_elem (js_split sep s) = Some (takeWhile (\<lambda>c. c \<noteq> sep) s)"
  by (induction s) (auto simp: first_elem_def split: list.splits)

text \<open>
  C6: for every raw item, the external identifier is the item's link with everything from
  the first \<open>?\<close> on removed (it is never \<open>undefined\<close>); for the empty link it is the empty
  string; \<open>externalId("https://x/p/123?ref=abc") = "https://x/p/123"\<close>.
\<close>

theorem external_id_strips_query:
  "external_id (normalizeItem platformKey p) = Some (takeWhile (\<lambda>c. c \<noteq> qmark) (link p))
   \<and> external_id (normalizeItem platformKey (p\<lparr> link := [] \<rparr>)) = Some []
   \<and> external_id (normalizeItem platformKey (p\<lparr> link := js ''https://x/p/123?ref=abc'' \<rparr>))
       = Some (js ''https://x/p/123'')"
  by (simp add: normalizeItem_def Let_def first_elem_js_split)
    (simp add: first_elem_def js_def qmark_def)

text \<open>
  C7: for every raw item, normalization parses the reference-price text and, if the parsed
  value is 0, sets \<open>original_price\<close> to the parsed current price, which makes the discount
  rate 0; otherwise \<open>original_price\<close> is the parsed reference price.
\<close>

theorem reference_price_fallback:
  "(parseTRPrice (orgPriceStr p) = Fin 0 \<longrightarrow>
      original_price (normalizeItem platformKey p) = parseTRPrice (priceStr p)
      \<and> discount_rate (normalizeItem platformKey p) = Fin 0)
   \<and> (parseTRPrice (orgPriceStr p) \<noteq> Fin 0 \<longrightarrow>
      original_price (normalizeItem platformKey p) = parseTRPrice (orgPriceStr p))
   \<and> price (normalizeItem platformKey p) = parseTRPrice (priceStr p)"
  by (simp add: normalizeItem_def Let_def discountRate_def discount_def)

theorem reference_price_fallback_witness:
  "parseTRPrice (orgPriceStr \<lparr> raw_item.title = js ''Brand ShirtX'', priceStr = js ''59,99 TL'',
       orgPriceStr = [], link = js ''https://x/p/1?a=1'', img = [] \<rparr>) = Fin 0
   \<and> original_price (normalizeItem (js ''trendyol'')
         \<lparr> raw_item.title = js ''Brand ShirtX'', priceStr = js ''59,99 TL'',
           orgPriceStr = [], link = js ''https://x/p/1?a=1'', img = [] \<rparr>)
       = parseTRPrice (js ''59,99 TL'')
   \<and> discount_rate (normalizeItem (js ''trendyol'')
         \<lparr> raw_item.title = js ''Brand ShirtX'', priceStr = js ''59,99 TL'',
           orgPriceStr = [], link = js ''https://x/p/1?a=1'', img = [] \<rparr>) = Fin 0"
  using reference_price_fallback[of "\<lparr> raw_item.title = js ''Brand ShirtX'',
      priceStr = js ''59,99 TL'', orgPriceStr = [], link = js ''https://x/p/1?a=1'', img = [] \<rparr>"
      "js ''trendyol''"]
  by (simp add: parseTRPrice_def)

text \<open>
  C3: a normalized deal passes the filter if and only if \<open>discount_rate >= 40\<close>,
  \<open>price > 0\<close> and the title is longer than 5. At the boundaries, with the other two
  conditions met: a discount rate of 40 is valid and 39 is not; a title of length 5 is
  invalid and one of length 6 is valid.
\<close>

theorem isValid_iff:
  "isValid p = (js_ge (discount_rate p) (Fin 40) \<and> js_gt (price p) (Fin 0) \<and> 5 < length (title p))
   \<and> (discount_rate p = Fin r \<and> price p = Fin q \<longrightarrow>
        isValid p = (40 \<le> r \<and> 0 < q \<and> 5 < length (title p)))
   \<and> (js_gt (price p) (Fin 0) \<and> 5 < length (title p) \<longrightarrow>
        isValid (p\<lparr> discount_rate := Fin 40 \<rparr>) \<and> \<not> isValid (p\<lparr> discount_rate := Fin 39 \<rparr>))
   \<and> (js_ge (discount_rate p) (Fin 40) \<and> js_gt (price p) (Fin 0) \<longrightarrow>
        (length t = 5 \<longrightarrow> \<not> isValid (p\<lparr> title := t \<rparr>))
        \<and> (length t = 6 \<longrightarrow> isValid (p\<lparr> title := t \<rparr>)))"
  by (simp add: isValid_def)

theorem isValid_iff_witness:
  "isValid \<lparr> title = js ''ShirtX'', price = Fin 60, original_price = Fin 100,
       discount_rate = Fin 40, image_url = [], product_url = [], platform = js ''trendyol'',
       external_id = Some [] \<rparr>
   \<and> \<not> isValid \<lparr> title = js ''ShirtX'', price = Fin 60, original_price = Fin 100,
       discount_rate = Fin 39, image_url = [], product_url = [], platform = js ''trendyol'',
       external_id = Some [] \<rparr>
   \<and> \<not> isValid \<lparr> title = js ''Shirt'', price = Fin 60, original_price = Fin 100,
       discount_rate = Fin 40, image_url = [], product_url = [], platform = js ''trendyol'',
       external_id = Some [] \<rparr>
   \<and> isValid \<lparr> title = js ''Shirts'', price = Fin 60, original_price = Fin 100,
       discount_rate = Fin 40, image_url = [], product_url = [], platform = js ''trendyol'',
       external_id = Some [] \<rparr>"
  using isValid_iff[where p = "\<lparr> title = js ''ShirtX'', price = Fin 60, original_price = Fin 100,
       discount_rate = Fin 40, image_url = [], product_url = [], platform = js ''trendyol'',
       external_id = Some [] \<rparr>" and r = 40 and q = 60 and t = "js ''Shirt''"]
    isValid_iff[where p = "\<lparr> title = js ''ShirtX'', price = Fin 60, original_price = Fin 100,
       discount_rate = Fin 40, image_url = [], product_url = [], platform = js ''trendyol'',
       external_id = Some [] \<rparr>" and r = 40 and q = 60 and t = "js ''Shirts''"]
  by (simp add: js_def)

section \<open>The scenario\<close>

lemma parse_59_99: "parseTRPrice (js ''59,99 TL'') = Fin (8442841926436127 / 140737488355328)"
proof -
  have "fl (5999 / 100) = Fin (8442841926436127 / 140737488355328)"
    by (simp add: fl_eval fl_pos_exp[where k = 5])
  then show ?thesis
    by (simp add: parseTRPrice_def parseFloat_def js_def keep_def is_digit_def comma_def dot_def
      digits_val_def)
qed

lemma parse_129_99_value: "parseTRPrice (js ''129,99 TL'') = Fin (571702065978409 / 4398046511104)"
proof -
  have "fl (12999 / 100) = Fin (571702065978409 / 4398046511104)"
    by (simp add: fl_eval fl_pos_exp[where k = 7])
  then show ?thesis
    by (simp add: parse_129_99)
qed

lemma parse_10_00: "parseTRPrice (js ''10,00 TL'') = Fin 10"
proof -
  have "fl 10 = Fin 10"
    by (simp add: fl_eval fl_pos_exp[where k = 3])
  then show ?thesis
    by (simp add: parseTRPrice_def parseFloat_def js_def keep_def is_digit_def comma_def dot_def
      digits_val_def)
qed

lemma discountRate_scenario:
  "discountRate (Fin (8442841926436127 / 140737488355328)) (Fin (571702065978409 / 4398046511104)) = Fin 54"
proof -
  have s: "js_sub (Fin (571702065978409 / 4398046511104)) (Fin (8442841926436127 / 140737488355328)) = Fin 70"
    by (simp add: fl_eval fl_pos_exp[where k = 6])
  have d: "js_div (Fin 70) (Fin (571702065978409 / 4398046511104)) = Fin (4850403475897141 / 9007199254740992)"
    by (simp add: fl_eval fl_pos_exp[where k = "- 1"])
  have m: "js_mul (Fin (4850403475897141 / 9007199254740992)) (Fin 100) = Fin (7578755431089283 / 140737488355328)"
    by (simp add: fl_eval fl_pos_exp[where k = 5])
  have "discount (Fin (8442841926436127 / 140737488355328)) (Fin (571702065978409 / 4398046511104))
      = Fin (7578755431089283 / 140737488355328)"
    unfolding discount_def s d m by simp
  then show ?thesis
    by (simp add: discountRate_def floor_rat_numeral)
qed

lemma trim_title_a: "trim (js ''Brand ShirtX'') = js ''Brand ShirtX''"
  by (simp add: trim_def js_def is_space_def)

lemma normalizeItem_raw_a: "normalizeItem (js ''trendyol'') raw_a = deal_a"
  by (simp add: normalizeItem_def Let_def raw_a_def deal_a_def parse_59_99 parse_129_99_value
      discountRate_scenario trim_title_a first_elem_js_split)
    (simp add: js_def qmark_def)

lemma isValid_deal_a: "isValid deal_a"
  by (simp add: isValid_def deal_a_def js_def)

lemma not_isValid_raw_b: "\<not> isValid (normalizeItem (js ''trendyol'') raw_b)"
  by (simp add: isValid_def normalizeItem_def Let_def raw_b_def parse_10_00 trim_def is_space_def)
    (simp add: js_def)

lemma validProducts_scenario: "validProducts (js ''trendyol'') [raw_a, raw_b] = [deal_a]"
  by (simp add: validProducts_def normalizeItem_raw_a isValid_deal_a not_isValid_raw_b)

section \<open>Persistence\<close>

lemma upsert_fault:
  "upsert \<lparr> rows = t, faults = Some msg # fs \<rparr> d
     = (\<lparr> response.data = None, error = Some msg \<rparr>, \<lparr> rows = t, faults = fs \<rparr>)"
  by (simp add: upsert_def)

lemma upsert_no_fault:
  "upsert \<lparr> rows = t, faults = None # fs \<rparr> d =
     (if key d \<in> set (map key t)
      then (\<lparr> response.data = Some [], error = None \<rparr>, \<lparr> rows = t, faults = fs \<rparr>)
      else (\<lparr> response.data = Some [d], error = None \<rparr>, \<lparr> rows = t @ [d], faults = fs \<rparr>))"
  by (simp add: upsert_def)

lemma upsert_no_faults_left:
  "upsert \<lparr> rows = t, faults = [] \<rparr> d =
     (if key d \<in> set (map key t)
      then (\<lparr> response.data = Some [], error = None \<rparr>, \<lparr> rows = t, faults = [] \<rparr>)
      else (\<lparr> response.data = Some [d], error = None \<rparr>, \<lparr> rows = t @ [d], faults = [] \<rparr>))"
  by (simp add: upsert_def)

lemmas upsert_eval = upsert_fault upsert_no_fault upsert_no_faults_left

text \<open>Without faults every call is answered with an array, and every answer is counted.\<close>

lemma saveLoop_counts_every_answer:
  "length (fst (saveLoop upsert \<lparr> rows = t, faults = [] \<rparr> ds acc)) = length acc + length ds"
  by (induction ds arbitrary: t acc) (simp_all add: upsert_no_faults_left)

text \<open>Whatever the batch and the faults, no call overwrites or removes a stored row.\<close>

lemma saveLoop_keeps_rows:
  "prefix (rows st) (rows (snd (saveLoop upsert st ds acc)))"
proof (induction ds arbitrary: st acc)
  case Nil
  then show ?case by simp
next
  case (Cons d ds)
  obtain r st' where u: "upsert st d = (r, st')" by (cases "upsert st d")
  then have "prefix (rows st) (rows st')"
    by (auto simp: upsert_def split: list.splits option.splits if_splits)
  moreover have "prefix (rows st') (rows (snd (saveLoop upsert st' ds acc')))" for acc'
    by (rule Cons.IH)
  ultimately show ?case using u by (auto intro: prefix_order.trans)
qed

text \<open>
  C8: during batch persistence a failed upsert is reported in the answer's \<open>error\<close>
  member; line 148 logs it, nothing is pushed to \<open>savedItems\<close>, and the loop goes on with
  the next deal. For every batch and every choice of failing calls, the saved items and
  the table are exactly what the deals whose call did not fail produce on their own: a
  failure neither aborts the batch nor changes the outcome of any other item.
\<close>

theorem fault_isolation:
  "length fs = length ds \<Longrightarrow>
   saveLoop upsert \<lparr> rows = t, faults = fs \<rparr> ds savedItems
   = saveLoop upsert \<lparr> rows = t, faults = [] \<rparr>
       (map snd (filter (\<lambda>x. fst x = None) (zip fs ds))) savedItems"
proof (induction ds arbitrary: fs t savedItems)
  case Nil
  then show ?case by simp
next
  case (Cons d ds)
  then obtain f fs' where fs: "fs = f # fs'" and len: "length fs' = length ds"
    by (cases fs) auto
  show ?case
  proof (cases f)
    case None
    then show ?thesis
      using Cons.IH[OF len] by (simp add: fs upsert_eval)
  next
    case (Some msg)
    then show ?thesis
      using Cons.IH[OF len] by (simp add: fs upsert_eval)
  qed
qed

theorem fault_isolation_witness:
  "length [None, Some (js ''timeout''), None]
     = length [deal_a, deal_a\<lparr> external_id := Some (js ''https://x/p/2'') \<rparr>,
               deal_a\<lparr> external_id := Some (js ''https://x/p/3'') \<rparr>]
   \<and> saveLoop upsert \<lparr> rows = [], faults = [None, Some (js ''timeout''), None] \<rparr>
        [deal_a, deal_a\<lparr> external_id := Some (js ''https://x/p/2'') \<rparr>,
         deal_a\<lparr> external_id := Some (js ''https://x/p/3'') \<rparr>] []
      = ([Some deal_a, Some (deal_a\<lparr> external_id := Some (js ''https://x/p/3'') \<rparr>)],
         \<lparr> rows = [deal_a, deal_a\<lparr> external_id := Some (js ''https://x/p/3'') \<rparr>],
           faults = [] \<rparr>)"
  using fault_isolation[of "[None, Some (js ''timeout''), None]"
      "[deal_a, deal_a\<lparr> external_id := Some (js ''https://x/p/2'') \<rparr>,
        deal_a\<lparr> external_id := Some (js ''https://x/p/3'') \<rparr>]" "[]" "[]"]
  by (simp add: upsert_eval key_def first_elem_def deal_a_def js_def)

section \<open>Runs of \<open>scrape\<close>\<close>

lemma CONFIG_get_trendyol:
  "CONFIG_get (js ''trendyol'') =
     Own \<lparr> url = js ''https://www.trendyol.com/sr?wc=103328&fl=en-cok-one-cikanlar'',
           selector = js ''.p-card-wrppr'' \<rparr>"
  by (simp add: CONFIG_get_def CONFIG_def js_def)

lemma CONFIG_get_constructor: "CONFIG_get (js ''constructor'') = Inherited"
  by (simp add: CONFIG_get_def CONFIG_def Object_prototype_def js_def)

lemma try_block_success:
  assumes "goto b (get_url c) = None" and "evaluate_scroll b = None"
    and "waitForTimeout b = None" and "evaluate_items b (get_selector c) = Inr products"
  shows "try_block svc b st k c =
     (Success \<lparr> total_found = length products,
                filtered_count = length (validProducts k products),
                saved_count = length (fst (saveLoop svc st (validProducts k products) [])),
                data = take 50 (validProducts k products) \<rparr>,
      [Goto (get_url c), Scroll, Wait, Evaluate (get_selector c)]
        @ map Upsert (validProducts k products),
      snd (saveLoop svc st (validProducts k products) []))"
  using assms by (simp add: try_block_def Let_def split: prod.splits)

lemma try_block_Success_iff:
  "(\<exists>tr st'. try_block svc b st k c = (Success s, tr, st')) =
     (\<exists>products. goto b (get_url c) = None \<and> evaluate_scroll b = None
        \<and> waitForTimeout b = None \<and> evaluate_items b (get_selector c) = Inr products
        \<and> s = \<lparr> total_found = length products,
                filtered_count = length (validProducts k products),
                saved_count = length (fst (saveLoop svc st (validProducts k products) [])),
                data = take 50 (validProducts k products) \<rparr>)"
  by (auto simp: try_block_def Let_def split: option.splits sum.splits prod.splits)

lemma scrape_ok:
  assumes "CONFIG_get k \<noteq> Undefined" and "launch b = None" and "newContext b = None"
    and "newPage b = None" and "close b = None"
  shows "scrape svc b st k =
     (case try_block svc b st k (CONFIG_get k) of
        (r, tr, st') \<Rightarrow> (Returned r, [Launch, NewContext, NewPage] @ tr @ [Close], st'))"
  using assms by (simp add: scrape_def split: property.splits prod.splits)

lemma scrape_Returned_Success:
  assumes "fst (scrape svc b st k) = Returned (Success s)"
  shows "\<exists>tr st'. try_block svc b st k (CONFIG_get k) = (Success s, tr, st')"
  using assms
  by (auto simp: scrape_def split: property.splits option.splits prod.splits)

lemma validProducts_subseq: "subseq (take n (validProducts k products)) (map (normalizeItem k) products)"
proof -
  have "subseq (take n (validProducts k products)) (validProducts k products)"
    by (metis append_take_drop_id prefix_def prefix_imp_subseq)
  moreover have "subseq (validProducts k products) (map (normalizeItem k) products)"
    by (simp add: validProducts_def)
  ultimately show ?thesis by (rule subseq_order.trans)
qed

text \<open>
  C5: a run in which every browser call succeeds returns a summary in which
  \<open>total_found\<close> is the number of raw items, \<open>filtered_count\<close> the number of normalized
  items that pass the validity filter, and \<open>data\<close> the first 50 of those, in the order of
  the batch; and every summary a run returns is of this form.
\<close>

theorem run_summary:
  "(CONFIG_get k \<noteq> Undefined \<and> launch b = None \<and> newContext b = None \<and> newPage b = None
      \<and> goto b (get_url (CONFIG_get k)) = None \<and> evaluate_scroll b = None
      \<and> waitForTimeout b = None
      \<and> evaluate_items b (get_selector (CONFIG_get k)) = Inr products \<and> close b = None
    \<longrightarrow> (\<exists>s. fst (scrape svc b st k) = Returned (Success s)
          \<and> total_found s = length products
          \<and> filtered_count s = length (filter isValid (map (normalizeItem k) products))
          \<and> data s = take 50 (filter isValid (map (normalizeItem k) products))
          \<and> subseq (data s) (map (normalizeItem k) products)))
   \<and> (fst (scrape svc b st k) = Returned (Success s')
    \<longrightarrow> (\<exists>products. evaluate_items b (get_selector (CONFIG_get k)) = Inr products
          \<and> total_found s' = length products
          \<and> filtered_count s' = length (filter isValid (map (normalizeItem k) products))
          \<and> data s' = take 50 (filter isValid (map (normalizeItem k) products))
          \<and> subseq (data s') (map (normalizeItem k) products)))"
proof (intro conjI impI)
  assume a: "CONFIG_get k \<noteq> Undefined \<and> launch b = None \<and> newContext b = None
      \<and> newPage b = None \<and> goto b (get_url (CONFIG_get k)) = None \<and> evaluate_scroll b = None
      \<and> waitForTimeout b = None
      \<and> evaluate_items b (get_selector (CONFIG_get k)) = Inr products \<and> close b = None"
  then have "fst (scrape svc b st k) =
      Returned (Success \<lparr> total_found = length products,
                filtered_count = length (validProducts k products),
                saved_count = length (fst (saveLoop svc st (validProducts k products) [])),
                data = take 50 (validProducts k products) \<rparr>)"
    by (simp add: scrape_ok try_block_success)
  then show "\<exists>s. fst (scrape svc b st k) = Returned (Success s)
          \<and> total_found s = length products
          \<and> filtered_count s = length (filter isValid (map (normalizeItem k) products))
          \<and> data s = take 50 (filter isValid (map (normalizeItem k) products))
          \<and> subseq (data s) (map (normalizeItem k) products)"
    using validProducts_subseq[of 50 k products] by (simp add: validProducts_def)
next
  assume "fst (scrape svc b st k) = Returned (Success s')"
  then obtain products where p: "evaluate_items b (get_selector (CONFIG_get k)) = Inr products"
    and s': "s' = \<lparr> total_found = length products,
                filtered_count = length (validProducts k products),
                saved_count = length (fst (saveLoop svc st (validProducts k products) [])),
                data = take 50 (validProducts k products) \<rparr>"
    using scrape_Returned_Success[of svc b st k s'] try_block_Success_iff[of svc b st k "CONFIG_get k" s']
    by blast
  show "\<exists>products. evaluate_items b (get_selector (CONFIG_get k)) = Inr products
          \<and> total_found s' = length products
          \<and> filtered_count s' = length (filter isValid (map (normalizeItem k) products))
          \<and> data s' = take 50 (filter isValid (map (normalizeItem k) products))
          \<and> subseq (data s') (map (normalizeItem k) products)"
    using p validProducts_subseq[of 50 k products] by (auto simp: s' validProducts_def)
qed

lemma page_with_simps:
  "launch (page_with items) = None" "newContext (page_with items) = None"
  "newPage (page_with items) = None" "goto (page_with items) (Some u) = None"
  "goto (page_with items) None = Some (js ''page.goto: url: expected string, got undefined'')"
  "evaluate_scroll (page_with items) = None" "waitForTimeout (page_with items) = None"
  "evaluate_items (page_with items) sel = Inr items" "close (page_with items) = None"
  by (simp_all add: page_with_def)

theorem run_summary_witness:
  "\<exists>s. fst (scrape upsert (page_with [raw_a, raw_b]) \<lparr> rows = [], faults = [] \<rparr> (js ''trendyol''))
        = Returned (Success s)
      \<and> total_found s = 2 \<and> filtered_count s = 1 \<and> data s = [deal_a]"
proof -
  have v: "filter isValid (map (normalizeItem (js ''trendyol'')) [raw_a, raw_b]) = [deal_a]"
    using validProducts_scenario by (simp only: validProducts_def)
  have h: "CONFIG_get (js ''trendyol'') \<noteq> Undefined \<and> launch (page_with [raw_a, raw_b]) = None
      \<and> newContext (page_with [raw_a, raw_b]) = None \<and> newPage (page_with [raw_a, raw_b]) = None
      \<and> goto (page_with [raw_a, raw_b]) (get_url (CONFIG_get (js ''trendyol''))) = None
      \<and> evaluate_scroll (page_with [raw_a, raw_b]) = None
      \<and> waitForTimeout (page_with [raw_a, raw_b]) = None
      \<and> evaluate_items (page_with [raw_a, raw_b]) (get_selector (CONFIG_get (js ''trendyol'')))
          = Inr [raw_a, raw_b]
      \<and> close (page_with [raw_a, raw_b]) = None"
    by (simp add: CONFIG_get_trendyol page_with_simps)
  from run_summary[where k = "js ''trendyol''" and b = "page_with [raw_a, raw_b]"
      and products = "[raw_a, raw_b]" and svc = upsert and st = "\<lparr> rows = [], faults = [] \<rparr>"] h
  obtain s where "fst (scrape upsert (page_with [raw_a, raw_b]) \<lparr> rows = [], faults = [] \<rparr>
        (js ''trendyol'')) = Returned (Success s)"
    and "total_found s = length [raw_a, raw_b]"
    and "filtered_count s = length (filter isValid (map (normalizeItem (js ''trendyol'')) [raw_a, raw_b]))"
    and "data s = take 50 (filter isValid (map (normalizeItem (js ''trendyol'')) [raw_a, raw_b]))"
    by blast
  then show ?thesis unfolding v by (intro exI[of _ s]) simp
qed

lemma scrape_scenario:
  "scrape upsert (page_with [raw_a, raw_b]) st (js ''trendyol'') =
     (Returned (Success \<lparr> total_found = 2, filtered_count = 1,
                  saved_count = length (fst (saveLoop upsert st [deal_a] [])),
                  data = [deal_a] \<rparr>),
      [Launch, NewContext, NewPage,
       Goto (Some (js ''https://www.trendyol.com/sr?wc=103328&fl=en-cok-one-cikanlar'')),
       Scroll, Wait, Evaluate (Some (js ''.p-card-wrppr'')), Upsert deal_a, Close],
      snd (saveLoop upsert st [deal_a] []))"
  by (simp add: scrape_ok try_block_success CONFIG_get_trendyol page_with_simps
      validProducts_scenario)

text \<open>
  C1 does not hold of the code. On the second run the stored row is left untouched, but
  the client's answer for the ignored duplicate is \<open>{data: [], error: null}\<close>; the empty
  array is truthy, so line 147 pushes \<open>data[0]\<close>, which is \<open>undefined\<close>, and the deal is
  counted: \<open>saved_count\<close> is 1 on the first run of the scenario and 1 again on the second,
  where C1 says 0.
\<close>

theorem rerun_counts_duplicates:
  "saveLoop upsert \<lparr> rows = [], faults = [] \<rparr> [deal_a] []
     = ([Some deal_a], \<lparr> rows = [deal_a], faults = [] \<rparr>)
   \<and> saveLoop upsert \<lparr> rows = [deal_a], faults = [] \<rparr> [deal_a] []
     = ([None], \<lparr> rows = [deal_a], faults = [] \<rparr>)
   \<and> fst (scrape upsert (page_with [raw_a, raw_b]) \<lparr> rows = [], faults = [] \<rparr> (js ''trendyol''))
     = Returned (Success \<lparr> total_found = 2, filtered_count = 1, saved_count = 1,
                  data = [deal_a] \<rparr>)
   \<and> fst (scrape upsert (page_with [raw_a, raw_b]) \<lparr> rows = [deal_a], faults = [] \<rparr>
          (js ''trendyol''))
     = Returned (Success \<lparr> total_found = 2, filtered_count = 1, saved_count = 1,
                  data = [deal_a] \<rparr>)"
  by (simp add: scrape_scenario upsert_eval first_elem_def)

text \<open>
  C9, as stated, fails. \<open>chromium.launch\<close>, \<open>newContext\<close> and \<open>newPage\<close> are awaited
  before the \<open>try\<close>: an exception there rejects the promise of \<open>scrape\<close>, which the route
  handler awaits without handling. And when navigation fails and \<open>browser.close()\<close> in
  \<open>finally\<close> throws as well, that exception replaces the \<open>{error: message}\<close> result.
\<close>

theorem run_failure_counterexample:
  "fst (scrape upsert
         ((page_with [raw_a, raw_b])\<lparr> launch := Some (js ''browserType.launch: executable not found'') \<rparr>)
         \<lparr> rows = [], faults = [] \<rparr> (js ''trendyol''))
     = Rejected (js ''browserType.launch: executable not found'')
   \<and> fst (scrape upsert
         ((page_with [raw_a, raw_b])\<lparr> goto := (\<lambda>u. Some (js ''page.goto: Timeout 60000ms exceeded'')),
            close := Some (js ''browser.close: Target closed'') \<rparr>)
         \<lparr> rows = [], faults = [] \<rparr> (js ''trendyol''))
     = Rejected (js ''browser.close: Target closed'')"
  by (simp add: scrape_def try_block_def CONFIG_get_trendyol page_with_def)

text \<open>
  C9, amended: provided the platform key passes the guard of line 65, the browser, the
  context and the page were created and \<open>browser.close()\<close> succeeds, any exception
  raised during navigation, the scroll, the wait or the extraction aborts the run: the caller receives \<open>{error: message}\<close> with the
  message of that exception, no summary is returned, no store call is made and the store
  is left as it was.
\<close>

theorem run_failure:
  "CONFIG_get k \<noteq> Undefined \<and> launch b = None \<and> newContext b = None \<and> newPage b = None
     \<and> close b = None
     \<and> (goto b (get_url (CONFIG_get k)) = Some msg
        \<or> goto b (get_url (CONFIG_get k)) = None \<and> (evaluate_scroll b = Some msg
        \<or> evaluate_scroll b = None \<and> (waitForTimeout b = Some msg
        \<or> waitForTimeout b = None
             \<and> evaluate_items b (get_selector (CONFIG_get k)) = Inl msg)))
   \<longrightarrow> fst (scrape svc b st k) = Returned (ErrorResult msg)
      \<and> snd (snd (scrape svc b st k)) = st
      \<and> (\<forall>d. Upsert d \<notin> set (fst (snd (scrape svc b st k))))"
proof
  assume a: "CONFIG_get k \<noteq> Undefined \<and> launch b = None \<and> newContext b = None
     \<and> newPage b = None \<and> close b = None
     \<and> (goto b (get_url (CONFIG_get k)) = Some msg
        \<or> goto b (get_url (CONFIG_get k)) = None \<and> (evaluate_scroll b = Some msg
        \<or> evaluate_scroll b = None \<and> (waitForTimeout b = Some msg
        \<or> waitForTimeout b = None
             \<and> evaluate_items b (get_selector (CONFIG_get k)) = Inl msg)))"
  then have "\<exists>tr. try_block svc b st k (CONFIG_get k) = (ErrorResult msg, tr, st)
      \<and> (\<forall>d. Upsert d \<notin> set tr)"
    by (auto simp: try_block_def)
  then obtain tr where t: "try_block svc b st k (CONFIG_get k) = (ErrorResult msg, tr, st)"
    and u: "\<forall>d. Upsert d \<notin> set tr" by blast
  have "scrape svc b st k = (Returned (ErrorResult msg), [Launch, NewContext, NewPage] @ tr @ [Close], st)"
    using a by (simp add: scrape_ok t)
  then show "fst (scrape svc b st k) = Returned (ErrorResult msg)
      \<and> snd (snd (scrape svc b st k)) = st
      \<and> (\<forall>d. Upsert d \<notin> set (fst (snd (scrape svc b st k))))"
    using u by simp
qed

theorem run_failure_witness:
  "fst (scrape upsert
         ((page_with [raw_a, raw_b])\<lparr> goto := (\<lambda>u. Some (js ''page.goto: Timeout 60000ms exceeded'')) \<rparr>)
         \<lparr> rows = [], faults = [] \<rparr> (js ''trendyol''))
     = Returned (ErrorResult (js ''page.goto: Timeout 60000ms exceeded''))
   \<and> snd (snd (scrape upsert
         ((page_with [raw_a, raw_b])\<lparr> goto := (\<lambda>u. Some (js ''page.goto: Timeout 60000ms exceeded'')) \<rparr>)
         \<lparr> rows = [], faults = [] \<rparr> (js ''trendyol''))) = \<lparr> rows = [], faults = [] \<rparr>"
  using run_failure[where k = "js ''trendyol''" and svc = upsert
      and b = "(page_with [raw_a, raw_b])\<lparr> goto := (\<lambda>u. Some (js ''page.goto: Timeout 60000ms exceeded'')) \<rparr>"
      and st = "\<lparr> rows = [], faults = [] \<rparr>" and msg = "js ''page.goto: Timeout 60000ms exceeded''"]
  by (simp add: CONFIG_get_trendyol page_with_def)

lemma unsupported_platform:
  "CONFIG_get k = Undefined \<Longrightarrow>
   scrape svc b st k = (Returned (ErrorResult (js ''Platform not supported'')), [], st)"
  by (simp add: scrape_def)

lemma CONFIG_get_Undefined_iff:
  "(CONFIG_get k = Undefined) = (k \<noteq> js ''trendyol'' \<and> k \<noteq> js ''temu'' \<and> k \<notin> set Object_prototype)"
  by (simp add: CONFIG_get_def CONFIG_def)

lemma inherited_key_launches:
  "k \<in> set Object_prototype \<Longrightarrow> \<exists>tr. fst (snd (scrape svc b st k)) = Launch # tr"
  by (auto simp: scrape_def CONFIG_get_def split: option.splits prod.splits)

text \<open>
  C10 does not hold of the code. A key that is no own property of \<open>CONFIG\<close> but names
  a member of \<open>Object.prototype\<close>, such as \<open>constructor\<close>, passes the guard of line 65:
  the browser is launched, \<open>page.goto(undefined)\<close> throws, and the run returns that error
  instead of \<open>'Platform not supported'\<close>.
\<close>

theorem inherited_key_passes_guard:
  "map_of CONFIG (js ''constructor'') = None
   \<and> scrape upsert (page_with []) \<lparr> rows = [], faults = [] \<rparr> (js ''constructor'')
     = (Returned (ErrorResult (js ''page.goto: url: expected string, got undefined'')),
        [Launch, NewContext, NewPage, Goto None, Close], \<lparr> rows = [], faults = [] \<rparr>)"
  by (simp add: scrape_def try_block_def CONFIG_get_constructor page_with_def)
    (simp add: CONFIG_def js_def)

end
